theory Spec2Isabelle
  imports Main "HOL-Library.AList"
begin

section \<open>Values, errors and the host environment\<close>

text \<open>
  The script \<^verbatim>\<open>.github/scripts/update_manifest.py\<close> works on the values that
  \<^verbatim>\<open>json.load\<close> and \<^verbatim>\<open>yaml.safe_load\<close> return. A Python dict keeps its
  insertion order and the order is what \<^verbatim>\<open>json.dump\<close> writes, so a dict is an
  association list: \<open>map_of\<close> is the lookup and \<open>AList.update\<close> is the item
  assignment \<^verbatim>\<open>d[k] = v\<close> (the value is replaced where the key stands, a new key
  goes to the end). A float is never inspected by the script and is carried as its
  literal. Characters are the code points below 256.
\<close>

datatype json =
    JNull
  | JBool bool
  | JInt int
  | JFloat string
  | JStr string
  | JList "json list"
  | JDict "(string \<times> json) list"

datatype py_error =
    ValueError string
  | FileNotFoundError string
  | AttributeError string
  | KeyError string
  | TypeError string
  | JSONDecodeError
  | YAMLError
  | IsADirectoryError string
  | NotADirectoryError string
  | UnicodeDecodeError
  | RecursionError

text \<open>
  The file system: \<open>files\<close> maps the path of a text file to its text,
  \<open>undecodable\<close> holds the paths of the files whose bytes do not decode as text,
  \<open>dirs\<close> holds the paths of the directories. Paths are names: the model does not
  resolve \<^verbatim>\<open>.\<close>, \<^verbatim>\<open>..\<close> or links, and it has no permissions. The console is the
  list of the lines printed so far.
\<close>

record world =
  files :: "string \<rightharpoonup> string"
  undecodable :: "string set"
  dirs :: "string set"
  stdout :: "string list"

text \<open>
  The libraries the script calls and does not define. Each can raise: \<^verbatim>\<open>json.load\<close>
  on a text raises \<^verbatim>\<open>JSONDecodeError\<close> and also other errors
  (\<^verbatim>\<open>RecursionError\<close> on deep nesting, \<^verbatim>\<open>ValueError\<close> on an integer with too many
  digits); \<^verbatim>\<open>yaml.safe_load\<close> raises on a text that is not YAML;
  \<^verbatim>\<open>json.dump(..., indent=4)\<close> raises \<^verbatim>\<open>TypeError\<close> on a value with no JSON form,
  after it has written a part of the text (the string beside the error).
  \<open>py_repr\<close> is the text \<^verbatim>\<open>str()\<close> gives for a value that is not a string.
\<close>

record libs =
  json_load :: "string \<Rightarrow> py_error + json"
  json_dump :: "json \<Rightarrow> (py_error \<times> string) + string"
  yaml_safe_load :: "string \<Rightarrow> py_error + json"
  py_repr :: "json \<Rightarrow> string"

definition print :: "world \<Rightarrow> string \<Rightarrow> world" where
  "print w line = w\<lparr>stdout := stdout w @ [line]\<rparr>"

definition raise :: "py_error \<Rightarrow> world \<Rightarrow> py_error option \<times> world" where
  "raise e w = (Some e, w)"

section \<open>Files\<close>

datatype fs_node = Missing | Directory | Undecodable | Text string

definition node_at :: "world \<Rightarrow> string \<Rightarrow> fs_node" where
  "node_at w path =
     (if path \<in> dirs w then Directory
      else if path \<in> undecodable w then Undecodable
      else (case files w path of None \<Rightarrow> Missing | Some txt \<Rightarrow> Text txt))"

definition path_exists :: "world \<Rightarrow> string \<Rightarrow> bool" where
  \<comment> \<open>\<^verbatim>\<open>os.path.exists(path)\<close>\<close>
  "path_exists w path = (node_at w path \<noteq> Missing)"

definition read_text :: "world \<Rightarrow> string \<Rightarrow> py_error + string" where
  \<comment> \<open>\<^verbatim>\<open>open(path, 'r')\<close> and the read of the whole file\<close>
  "read_text w path =
     (case node_at w path of
        Missing \<Rightarrow> Inl (FileNotFoundError path)
      | Directory \<Rightarrow> Inl (IsADirectoryError path)
      | Undecodable \<Rightarrow> Inl UnicodeDecodeError
      | Text txt \<Rightarrow> Inr txt)"

definition dirname :: "string \<Rightarrow> string" where
  \<comment> \<open>\<^verbatim>\<open>os.path.dirname(path)\<close> of posixpath\<close>
  "dirname path =
     (let head = rev (dropWhile (\<lambda>c. c \<noteq> CHR ''/'') (rev path))
      in if head \<noteq> [] \<and> \<not> list_all (\<lambda>c. c = CHR ''/'') head
         then rev (dropWhile (\<lambda>c. c = CHR ''/'') (rev head)) else head)"

definition open_write :: "world \<Rightarrow> string \<Rightarrow> py_error + world" where
  \<comment> \<open>\<^verbatim>\<open>open(path, 'w')\<close>: the directory of the file must be there (the working
      directory and the root are), the path must not be a directory; the file is then
      empty\<close>
  "open_write w path =
     (let parent = dirname path
      in if path = [] then Inl (FileNotFoundError path)
         else if path \<in> dirs w then Inl (IsADirectoryError path)
         else if parent = [] \<or> list_all (\<lambda>c. c = CHR ''/'') parent \<or> parent \<in> dirs w
         then Inr (w\<lparr>files := (files w)(path \<mapsto> []), undecodable := undecodable w - {path}\<rparr>)
         else if path_exists w parent then Inl (NotADirectoryError path)
         else Inl (FileNotFoundError path))"

section \<open>String and dict primitives\<close>

definition lower_char :: "char \<Rightarrow> char" where
  \<comment> \<open>\<^verbatim>\<open>str.lower\<close> on one code point below 256\<close>
  "lower_char c =
     (let n = (of_char c :: nat)
      in if (65 \<le> n \<and> n \<le> 90) \<or> (192 \<le> n \<and> n \<le> 222 \<and> n \<noteq> 215)
         then char_of (n + 32) else c)"

definition py_lower :: "string \<Rightarrow> string" where
  "py_lower s = map lower_char s"

definition isspace :: "char \<Rightarrow> bool" where
  \<comment> \<open>\<^verbatim>\<open>str.isspace\<close> on one code point below 256\<close>
  "isspace c =
     (let n = (of_char c :: nat)
      in (9 \<le> n \<and> n \<le> 13) \<or> (28 \<le> n \<and> n \<le> 32) \<or> n = 133 \<or> n = 160)"

definition py_strip :: "string \<Rightarrow> string" where
  \<comment> \<open>\<^verbatim>\<open>s.strip()\<close>\<close>
  "py_strip s = rev (dropWhile isspace (rev (dropWhile isspace s)))"

definition py_lstrip :: "string \<Rightarrow> string \<Rightarrow> string" where
  \<comment> \<open>\<^verbatim>\<open>s.lstrip(chars)\<close>: drops every leading character that is in \<open>chars\<close>\<close>
  "py_lstrip chars s = dropWhile (\<lambda>c. c \<in> set chars) s"

definition path_join :: "string \<Rightarrow> string \<Rightarrow> string" where
  \<comment> \<open>\<^verbatim>\<open>os.path.join(a, b)\<close> of posixpath\<close>
  "path_join a b =
     (if b \<noteq> [] \<and> hd b = CHR ''/'' then b
      else if a = [] \<or> last a = CHR ''/'' then a @ b
      else a @ ''/'' @ b)"

definition env_get :: "(string \<rightharpoonup> string) \<Rightarrow> string \<Rightarrow> string \<Rightarrow> string" where
  \<comment> \<open>\<^verbatim>\<open>os.environ.get(k, default)\<close>\<close>
  "env_get environ k dflt = (case environ k of None \<Rightarrow> dflt | Some v \<Rightarrow> v)"

definition dict_get :: "(string \<times> json) list \<Rightarrow> string \<Rightarrow> json \<Rightarrow> json" where
  \<comment> \<open>\<^verbatim>\<open>d.get(k, default)\<close>\<close>
  "dict_get d k dflt = (case map_of d k of None \<Rightarrow> dflt | Some v \<Rightarrow> v)"

definition nonempty_value :: "string option \<Rightarrow> string option" where
  \<comment> \<open>\<^verbatim>\<open>if not v: raise ...\<close> for \<^verbatim>\<open>v = os.environ.get(k)\<close>: \<open>None\<close> when the
      test raises (the variable is unset or empty), the value otherwise\<close>
  "nonempty_value v = (case v of None \<Rightarrow> None | Some s \<Rightarrow> if s = [] then None else Some s)"

definition format_str :: "libs \<Rightarrow> json \<Rightarrow> string" where
  \<comment> \<open>a value inside an f-string\<close>
  "format_str lib v = (case v of JStr s \<Rightarrow> s | _ \<Rightarrow> py_repr lib v)"

definition format_opt :: "string option \<Rightarrow> string" where
  \<comment> \<open>the result of \<^verbatim>\<open>os.environ.get(k)\<close> inside an f-string\<close>
  "format_opt v = (case v of None \<Rightarrow> ''None'' | Some s \<Rightarrow> s)"

section \<open>The steps of \<^verbatim>\<open>main\<close>\<close>

definition is_prerelease :: "(string \<rightharpoonup> string) \<Rightarrow> bool" where
  "is_prerelease environ = (py_lower (env_get environ ''IS_PRERELEASE'' ''false'') = ''true'')"

definition target_filename :: "(string \<rightharpoonup> string) \<Rightarrow> string" where
  "target_filename environ =
     (if is_prerelease environ then ''manifest-prerelease.json'' else ''manifest.json'')"

definition manifest_file :: "(string \<rightharpoonup> string) \<Rightarrow> string" where
  "manifest_file environ = path_join ''manifest-repo'' (target_filename environ)"

definition build_file :: string where
  "build_file = path_join ''plugin-repo'' ''build.yaml''"

definition checksum_file :: string where
  "checksum_file = ''checksum.txt''"

definition version_str :: "(string \<times> json) list \<Rightarrow> string \<Rightarrow> json" where
  "version_str build_config tag_name =
     dict_get build_config ''version'' (JStr (py_lstrip ''v'' tag_name))"

definition source_url :: "string option \<Rightarrow> string \<Rightarrow> string \<Rightarrow> string" where
  "source_url repo_slug tag_name artifact_name =
     ''https://github.com/'' @ format_opt repo_slug @ ''/releases/download/'' @ tag_name
       @ ''/'' @ artifact_name"

definition new_version_entry ::
  "(string \<times> json) list \<Rightarrow> string \<Rightarrow> string \<Rightarrow> string option \<Rightarrow> string \<Rightarrow> string \<Rightarrow> string
     \<Rightarrow> json" where
  \<comment> \<open>\<open>now\<close> is \<^verbatim>\<open>datetime.utcnow().strftime('%Y-%m-%dT%H:%M:%SZ')\<close>\<close>
  "new_version_entry build_config tag_name release_body repo_slug artifact_name checksum now =
     JDict [(''version'', version_str build_config tag_name),
            (''changelog'', JStr release_body),
            (''timestamp'', JStr now),
            (''sourceUrl'', JStr (source_url repo_slug tag_name artifact_name)),
            (''checksum'', JStr checksum),
            (''targetAbi'', dict_get build_config ''targetAbi'' (JStr ''unknown''))]"

text \<open>
  Reading the manifest: the body of the \<^verbatim>\<open>try\<close>, where the \<^verbatim>\<open>open\<close>, the read
  and \<^verbatim>\<open>json.load\<close> can raise, and the handler, which catches
  \<^verbatim>\<open>JSONDecodeError\<close> and nothing else.
\<close>

definition quoted :: "string \<Rightarrow> string" where
  \<comment> \<open>a string between apostrophes, as the f-strings of the messages write it\<close>
  "quoted s = CHR 0x27 # s @ [CHR 0x27]"

definition read_manifest :: "libs \<Rightarrow> string \<Rightarrow> world \<Rightarrow> (py_error + json) \<times> world" where
  "read_manifest lib path w =
     (if path_exists w path
      then (case read_text w path of
              Inl e \<Rightarrow> (Inl e, w)
            | Inr txt \<Rightarrow> (json_load lib txt, w))
      else (Inr (JList []),
            print w (quoted path @ '' does not exist. A new one will be created.'')))"

definition load_manifest :: "libs \<Rightarrow> string \<Rightarrow> world \<Rightarrow> (py_error + json) \<times> world" where
  "load_manifest lib path w =
     (case read_manifest lib path w of
        (Inl JSONDecodeError, w') \<Rightarrow>
          (Inr (JList []), print w' (quoted path @ '' is invalid JSON. A new one will be created.''))
      | (Inl e, w') \<Rightarrow> (Inl e, w')
      | (Inr v, w') \<Rightarrow> (Inr v, w'))"

text \<open>
  What \<^verbatim>\<open>for plugin in manifest_data\<close> iterates over: the items of a list, the keys
  of a dict, the characters of a string; any other value is not iterable.
\<close>

definition py_iter :: "json \<Rightarrow> py_error + json list" where
  "py_iter v =
     (case v of
        JList xs \<Rightarrow> Inr xs
      | JDict kvs \<Rightarrow> Inr (map (\<lambda>kv. JStr (fst kv)) kvs)
      | JStr s \<Rightarrow> Inr (map (\<lambda>c. JStr [c]) s)
      | _ \<Rightarrow> Inl (TypeError ''object is not iterable''))"

definition update_metadata ::
  "(string \<times> json) list \<Rightarrow> (string \<times> json) list \<Rightarrow> (string \<times> json) list" where
  \<comment> \<open>the five assignments, \<^verbatim>\<open>plugin['category'] = ...\<close> to \<^verbatim>\<open>plugin['overview'] = ...\<close>\<close>
  "update_metadata build_config plugin =
     AList.update ''overview'' (dict_get build_config ''overview'' (JStr []))
       (AList.update ''owner'' (dict_get build_config ''owner'' (JStr ''Unknown Owner''))
         (AList.update ''description'' (dict_get build_config ''description'' (JStr []))
           (AList.update ''name'' (dict_get build_config ''name'' (JStr ''Unknown Plugin''))
             (AList.update ''category'' (dict_get build_config ''category'' (JStr ''General''))
               plugin))))"

definition insert_version :: "json \<Rightarrow> (string \<times> json) list \<Rightarrow> py_error + (string \<times> json) list" where
  \<comment> \<open>\<^verbatim>\<open>plugin['versions'].insert(0, new_version_entry)\<close>\<close>
  "insert_version entry plugin =
     (case map_of plugin ''versions'' of
        None \<Rightarrow> Inl (KeyError ''versions'')
      | Some (JList vs) \<Rightarrow> Inr (AList.update ''versions'' (JList (entry # vs)) plugin)
      | Some _ \<Rightarrow> Inl (AttributeError ''insert''))"

text \<open>
  The loop over the plugins. The result is the flag \<^verbatim>\<open>plugin_found\<close> with the items
  as the loop leaves them; the loop stops at the first match (\<^verbatim>\<open>break\<close>).
\<close>

fun find_plugin ::
  "string \<Rightarrow> (string \<times> json) list \<Rightarrow> json \<Rightarrow> json list \<Rightarrow> py_error + (bool \<times> json list)" where
  "find_plugin plugin_guid build_config entry [] = Inr (False, [])"
| "find_plugin plugin_guid build_config entry (plugin # rest) =
     (case plugin of
        JDict d \<Rightarrow>
          if map_of d ''guid'' = Some (JStr plugin_guid)
          then (case insert_version entry (update_metadata build_config d) of
                  Inl e \<Rightarrow> Inl e
                | Inr d' \<Rightarrow> Inr (True, JDict d' # rest))
          else (case find_plugin plugin_guid build_config entry rest of
                  Inl e \<Rightarrow> Inl e
                | Inr (found, rest') \<Rightarrow> Inr (found, plugin # rest'))
      | _ \<Rightarrow> Inl (AttributeError ''get''))"

definition new_plugin_entry_obj :: "string \<Rightarrow> (string \<times> json) list \<Rightarrow> json \<Rightarrow> json" where
  "new_plugin_entry_obj plugin_guid build_config entry =
     JDict [(''category'', dict_get build_config ''category'' (JStr ''General'')),
            (''guid'', JStr plugin_guid),
            (''name'', dict_get build_config ''name'' (JStr ''Unknown Plugin'')),
            (''description'', dict_get build_config ''description'' (JStr [])),
            (''owner'', dict_get build_config ''owner'' (JStr ''Unknown Owner'')),
            (''overview'', dict_get build_config ''overview'' (JStr [])),
            (''versions'', JList [entry])]"

definition py_append :: "json \<Rightarrow> json \<Rightarrow> py_error + json" where
  \<comment> \<open>\<^verbatim>\<open>manifest_data.append(x)\<close>: only a list has the method\<close>
  "py_append v x =
     (case v of JList xs \<Rightarrow> Inr (JList (xs @ [x])) | _ \<Rightarrow> Inl (AttributeError ''append''))"

definition store_items :: "json \<Rightarrow> json list \<Rightarrow> json" where
  \<comment> \<open>the loop changes its items in place: a list then holds the changed items; the keys of
      a dict and the characters of a string cannot change\<close>
  "store_items v items = (case v of JList _ \<Rightarrow> JList items | _ \<Rightarrow> v)"

definition upsert ::
  "string \<Rightarrow> (string \<times> json) list \<Rightarrow> json \<Rightarrow> json \<Rightarrow> world \<Rightarrow> (py_error + json) \<times> world" where
  \<comment> \<open>"Find plugin by GUID and update/create it"\<close>
  "upsert plugin_guid build_config entry manifest_data w =
     (case py_iter manifest_data of
        Inl e \<Rightarrow> (Inl e, w)
      | Inr items \<Rightarrow>
          (case find_plugin plugin_guid build_config entry items of
             Inl e \<Rightarrow> (Inl e, w)
           | Inr (plugin_found, items') \<Rightarrow>
               if \<not> plugin_found
               then (py_append (store_items manifest_data items')
                       (new_plugin_entry_obj plugin_guid build_config entry),
                     print w (''Plugin with GUID '' @ plugin_guid
                                @ '' not found. Creating new entry.''))
               else (Inr (store_items manifest_data items'), w)))"

definition write_manifest ::
  "libs \<Rightarrow> string \<Rightarrow> json \<Rightarrow> world \<Rightarrow> py_error option \<times> world" where
  \<comment> \<open>"Write the updated data back to the manifest file"\<close>
  "write_manifest lib path manifest_data w =
     (case open_write w path of
        Inl e \<Rightarrow> raise e w
      | Inr w1 \<Rightarrow>
          (case json_dump lib manifest_data of
             Inl (e, written) \<Rightarrow> raise e (w1\<lparr>files := (files w1)(path \<mapsto> written)\<rparr>)
           | Inr txt \<Rightarrow>
               (None, print (w1\<lparr>files := (files w1)(path \<mapsto> txt)\<rparr>)
                        (''Successfully wrote to '' @ path))))"

definition emit_output ::
  "libs \<Rightarrow> (string \<rightharpoonup> string) \<Rightarrow> json \<Rightarrow> world \<Rightarrow> py_error option \<times> world" where
  \<comment> \<open>"Set output for the version used in the manifest"; the file \<^verbatim>\<open>GITHUB_OUTPUT\<close>
      names is the runner's own text file\<close>
  "emit_output lib environ version w =
     (let line = ''manifest_version='' @ format_str lib version;
          w1 = print w line
      in case environ ''GITHUB_OUTPUT'' of
           None \<Rightarrow> (None, w1)
         | Some path \<Rightarrow>
             if path = [] then raise (FileNotFoundError path) w1
             else (None,
                   w1\<lparr>files := (files w1)
                     (path \<mapsto> (case files w1 path of None \<Rightarrow> [] | Some old \<Rightarrow> old)
                               @ line @ [CHR 0x0A])\<rparr>))"

text \<open>
  Sequencing. \<open>require\<close> is a test that raises (\<^verbatim>\<open>if not v: raise e\<close>);
  \<open>attempt\<close> is a call that can raise and leaves the world as it is; \<open>try_step\<close>
  runs a step that can raise and hands its value and the world it leaves to the rest of
  the script; \<open>and_then\<close> runs the rest after a step without a value.
\<close>

definition require ::
  "'a option \<Rightarrow> py_error \<Rightarrow> world \<Rightarrow> ('a \<Rightarrow> py_error option \<times> world) \<Rightarrow> py_error option \<times> world" where
  "require v e w k = (case v of None \<Rightarrow> raise e w | Some x \<Rightarrow> k x)"

definition attempt ::
  "py_error + 'a \<Rightarrow> world \<Rightarrow> ('a \<Rightarrow> py_error option \<times> world) \<Rightarrow> py_error option \<times> world" where
  "attempt r w k = (case r of Inl e \<Rightarrow> raise e w | Inr x \<Rightarrow> k x)"

definition try_step ::
  "(py_error + 'a) \<times> world \<Rightarrow> ('a \<Rightarrow> world \<Rightarrow> py_error option \<times> world) \<Rightarrow> py_error option \<times> world" where
  "try_step r k = (case r of (Inl e, w) \<Rightarrow> raise e w | (Inr x, w) \<Rightarrow> k x w)"

definition and_then ::
  "py_error option \<times> world \<Rightarrow> (world \<Rightarrow> py_error option \<times> world) \<Rightarrow> py_error option \<times> world" where
  "and_then r k = (case r of (Some e, w) \<Rightarrow> raise e w | (None, w) \<Rightarrow> k w)"

definition as_dict :: "json \<Rightarrow> (string \<times> json) list option" where
  \<comment> \<open>\<^verbatim>\<open>build_config.get\<close>: only a dict has the method\<close>
  "as_dict v = (case v of JDict d \<Rightarrow> Some d | _ \<Rightarrow> None)"

definition checksum_exists :: "world \<Rightarrow> unit option" where
  \<comment> \<open>\<^verbatim>\<open>if not os.path.exists(checksum_file): raise ...\<close>\<close>
  "checksum_exists w = (if path_exists w checksum_file then Some () else None)"

definition main ::
  "libs \<Rightarrow> (string \<rightharpoonup> string) \<Rightarrow> string \<Rightarrow> world \<Rightarrow> py_error option \<times> world" where
  "main lib environ now w0 =
     (let w1 = print w0 (''Release type detected: ''
                 @ (if is_prerelease environ then ''Prerelease'' else ''Stable''));
          w2 = print w1 (''Updating file: '' @ target_filename environ)
      in
      require (nonempty_value (environ ''PLUGIN_GUID''))
        (ValueError ''Environment variable PLUGIN_GUID is missing'') w2 (\<lambda>plugin_guid.
      let w3 = print w2 (''Reading build config from: '' @ build_file)
      in
      attempt (read_text w3 build_file) w3 (\<lambda>yaml_text.
      attempt (yaml_safe_load lib yaml_text) w3 (\<lambda>build_config.
      require (nonempty_value (environ ''GITHUB_REF_NAME''))
        (ValueError ''GITHUB_REF_NAME is missing'') w3 (\<lambda>tag_name.
      require (as_dict build_config) (AttributeError ''get'') w3 (\<lambda>cfg.
      let version = version_str cfg tag_name;
          release_body = env_get environ ''RELEASE_BODY'' ''See release notes.'';
          repo_slug = environ ''GITHUB_REPOSITORY''
      in
      require (nonempty_value (environ ''ARTIFACT_NAME''))
        (ValueError ''ARTIFACT_NAME environment variable is missing'') w3 (\<lambda>artifact_name.
      require (checksum_exists w3)
        (FileNotFoundError (''Checksum file not found at '' @ checksum_file)) w3 (\<lambda>_.
      attempt (read_text w3 checksum_file) w3 (\<lambda>checksum_text.
      let checksum = py_strip checksum_text;
          entry = new_version_entry cfg tag_name release_body repo_slug artifact_name checksum now
      in
      try_step (load_manifest lib (manifest_file environ) w3) (\<lambda>manifest_data w4.
      try_step (upsert plugin_guid cfg entry manifest_data w4) (\<lambda>manifest_data' w5.
      and_then (write_manifest lib (manifest_file environ) manifest_data' w5) (\<lambda>w6.
      emit_output lib environ version w6))))))))))))"

section \<open>Notions of the specification\<close>

definition json_get :: "json \<Rightarrow> string \<Rightarrow> json option" where
  \<comment> \<open>the field \<open>k\<close> of an entry\<close>
  "json_get v k = (case v of JDict d \<Rightarrow> map_of d k | _ \<Rightarrow> None)"

fun is_true_ignoring_case :: "string \<Rightarrow> bool" where
  \<comment> \<open>"case-insensitive true": the four letters, each in either case\<close>
  "is_true_ignoring_case [a, b, c, d] =
     ((a = CHR ''t'' \<or> a = CHR ''T'') \<and> (b = CHR ''r'' \<or> b = CHR ''R'')
      \<and> (c = CHR ''u'' \<or> c = CHR ''U'') \<and> (d = CHR ''e'' \<or> d = CHR ''E''))"
| "is_true_ignoring_case _ = False"



definition entry_guid :: "json \<Rightarrow> json option" where
  \<comment> \<open>the guid of a plugin entry, when it has one\<close>
  "entry_guid e = json_get e ''guid''"

definition unique_guids :: "json \<Rightarrow> bool" where
  \<comment> \<open>"at most one PluginEntry per guid"\<close>
  "unique_guids m =
     (case m of JList ps \<Rightarrow> distinct (List.map_filter entry_guid ps) | _ \<Rightarrow> False)"

definition other_plugin :: "string \<Rightarrow> json \<Rightarrow> bool" where
  \<comment> \<open>a plugin entry (a JSON object) whose guid is not \<open>g\<close>\<close>
  "other_plugin g e = (case e of JDict d \<Rightarrow> map_of d ''guid'' \<noteq> Some (JStr g) | _ \<Rightarrow> False)"

definition same_fs :: "world \<Rightarrow> world \<Rightarrow> bool" where
  \<comment> \<open>nothing on disk has changed\<close>
  "same_fs w w' = (files w' = files w \<and> undecodable w' = undecodable w \<and> dirs w' = dirs w)"

definition halted :: "world \<Rightarrow> py_error option \<times> world \<Rightarrow> bool" where
  \<comment> \<open>a run from \<open>w\<close> that ended with an error and wrote nothing\<close>
  "halted w r = (fst r \<noteq> None \<and> same_fs w (snd r))"

text \<open>
  A host for the examples: libraries that know the few texts the examples use, an
  environment, a workspace and a manifest with two plugins.
\<close>

definition cfg0 :: "(string \<times> json) list" where
  "cfg0 = [(''name'', JStr ''Foo''), (''category'', JStr ''Tools'')]"

fun dumps :: "json \<Rightarrow> string" where
  \<comment> \<open>a compact writer for the examples: strings, lists and dicts in full\<close>
  "dumps JNull = ''null''"
| "dumps (JBool b) = (if b then ''true'' else ''false'')"
| "dumps (JInt i) = ''<int>''"
| "dumps (JFloat s) = s"
| "dumps (JStr s) = CHR 0x22 # s @ [CHR 0x22]"
| "dumps (JList xs) = ''['' @ concat (map (\<lambda>x. dumps x @ '','') xs) @ '']''"
| "dumps (JDict kvs) =
     ''{'' @ concat (map (\<lambda>(k, v). CHR 0x22 # k @ [CHR 0x22] @ '':'' @ dumps v @ '','') kvs) @ ''}''"

definition lib0 :: libs where
  "lib0 =
     \<lparr>json_load = (\<lambda>s. if s = ''[]'' then Inr (JList []) else Inl JSONDecodeError),
      json_dump = (\<lambda>v. Inr (dumps v)),
      yaml_safe_load =
        (\<lambda>s. if s = ''{name: Foo, category: Tools}'' then Inr (JDict cfg0) else Inl YAMLError),
      py_repr = (\<lambda>v. ''<value>'')\<rparr>"

definition env0 :: "string \<rightharpoonup> string" where
  "env0 = [''PLUGIN_GUID'' \<mapsto> ''G1'', ''GITHUB_REF_NAME'' \<mapsto> ''v1.0.0'',
           ''ARTIFACT_NAME'' \<mapsto> ''foo.zip'']"

definition w0 :: world where
  "w0 = \<lparr>files = [''plugin-repo/build.yaml'' \<mapsto> ''{name: Foo, category: Tools}'',
                   ''checksum.txt'' \<mapsto> ''abc123 ''],
          undecodable = {},
          dirs = {''plugin-repo'', ''manifest-repo''},
          stdout = []\<rparr>"

definition entry0 :: json where
  "entry0 = new_version_entry cfg0 ''v1.0.0'' ''See release notes.'' (Some ''o/r'') ''foo.zip''
              ''abc123'' ''2024-05-01T12:00:00Z''"

definition old_version :: json where
  "old_version = JDict [(''version'', JStr ''0.9.0''), (''checksum'', JStr ''fff'')]"

definition manifest0 :: "json list" where
  "manifest0 =
     [JDict [(''guid'', JStr ''G0''), (''name'', JStr ''Other''), (''versions'', JList [])],
      JDict [(''category'', JStr ''Old''), (''guid'', JStr ''G1''), (''name'', JStr ''Old name''),
             (''versions'', JList [old_version])]]"

section \<open>Basic facts\<close>

lemma files_print [simp]: "files (print w l) = files w"
  by (simp add: print_def)

lemma stdout_print [simp]: "stdout (print w l) = stdout w @ [l]"
  by (simp add: print_def)

lemma undecodable_print [simp]: "undecodable (print w l) = undecodable w"
  by (simp add: print_def)

lemma dirs_print [simp]: "dirs (print w l) = dirs w"
  by (simp add: print_def)

lemma node_at_print [simp]: "node_at (print w l) = node_at w"
  by (simp add: node_at_def fun_eq_iff)

lemma path_exists_print [simp]: "path_exists (print w l) = path_exists w"
  by (simp add: path_exists_def fun_eq_iff)

lemma read_text_print [simp]: "read_text (print w l) = read_text w"
  by (simp add: read_text_def fun_eq_iff)

lemma checksum_exists_print [simp]: "checksum_exists (print w l) = checksum_exists w"
  by (simp add: checksum_exists_def)

lemma attempt_Inl [simp]: "attempt (Inl e) w k = (Some e, w)"
  by (simp add: attempt_def raise_def)

lemma attempt_Inr [simp]: "attempt (Inr x) w k = k x"
  by (simp add: attempt_def)

lemma require_None [simp]: "require None e w k = (Some e, w)"
  by (simp add: require_def raise_def)

lemma require_Some [simp]: "require (Some x) e w k = k x"
  by (simp add: require_def)

lemma nonempty_value_simps [simp]:
  "nonempty_value None = None" "nonempty_value (Some []) = None" "s \<noteq> [] \<Longrightarrow> nonempty_value (Some s) = Some s"
  by (simp_all add: nonempty_value_def)

lemma nonempty_value_None_iff: "nonempty_value v = None \<longleftrightarrow> v = None \<or> v = Some []"
  by (simp add: nonempty_value_def split: option.splits)

lemmas run_defs = main_def Let_def env0_def w0_def lib0_def build_file_def checksum_file_def
  path_join_def manifest_file_def as_dict_def env_get_def checksum_exists_def path_exists_def
  read_text_def node_at_def

section \<open>The target file\<close>

lemma of_char_lower_char:
  "(of_char (lower_char c) :: nat) =
     (let n = of_char c
      in if (65 \<le> n \<and> n \<le> 90) \<or> (192 \<le> n \<and> n \<le> 222 \<and> n \<noteq> 215) then n + 32 else n)"
proof -
  have "(of_char c :: nat) \<le> 222 \<Longrightarrow> ((of_char c :: nat) + 32) mod 256 = of_char c + 32"
    by simp
  then show ?thesis
    by (auto simp add: lower_char_def Let_def)
qed

lemma lower_char_eq_iff:
  assumes "97 \<le> (of_char l :: nat)" and "(of_char l :: nat) \<le> 122"
  shows "lower_char c = l
    \<longleftrightarrow> (of_char c :: nat) = of_char l \<or> (of_char c :: nat) + 32 = of_char l"
proof -
  have "lower_char c = l \<longleftrightarrow> (of_char (lower_char c) :: nat) = of_char l"
    by (simp only: of_char_eq_iff)
  also have "\<dots> \<longleftrightarrow> (of_char c :: nat) = of_char l \<or> (of_char c :: nat) + 32 = of_char l"
    using assms unfolding of_char_lower_char Let_def by auto
  finally show ?thesis .
qed

lemma char_eq_code: "c = d \<longleftrightarrow> (of_char c :: nat) = of_char d"
  by simp

lemma lower_char_letters:
  "lower_char c = CHR ''t'' \<longleftrightarrow> c = CHR ''t'' \<or> c = CHR ''T''"
  "lower_char c = CHR ''r'' \<longleftrightarrow> c = CHR ''r'' \<or> c = CHR ''R''"
  "lower_char c = CHR ''u'' \<longleftrightarrow> c = CHR ''u'' \<or> c = CHR ''U''"
  "lower_char c = CHR ''e'' \<longleftrightarrow> c = CHR ''e'' \<or> c = CHR ''E''"
  by (simp_all add: lower_char_eq_iff char_eq_code [of c] del: of_char_eq_iff)

lemma py_lower_true: "py_lower s = ''true'' \<longleftrightarrow> is_true_ignoring_case s"
  by (cases s rule: is_true_ignoring_case.cases)
     (simp_all add: py_lower_def lower_char_letters)

text \<open>
  C6. The target filename is \<^verbatim>\<open>manifest-prerelease.json\<close> exactly when the value of
  \<^verbatim>\<open>IS_PRERELEASE\<close> (\<^verbatim>\<open>false\<close> when the variable is absent) is the word
  \<^verbatim>\<open>true\<close> in any mix of upper and lower case, and \<^verbatim>\<open>manifest.json\<close> for every
  other value.
\<close>

theorem target_filename_prerelease:
  "target_filename environ =
     (if is_true_ignoring_case
           (case environ ''IS_PRERELEASE'' of None \<Rightarrow> ''false'' | Some v \<Rightarrow> v)
      then ''manifest-prerelease.json'' else ''manifest.json'')"
  by (simp add: target_filename_def is_prerelease_def env_get_def py_lower_true)

lemma target_filename_examples:
  "target_filename [''IS_PRERELEASE'' \<mapsto> ''TrUe''] = ''manifest-prerelease.json''"
  "target_filename [''IS_PRERELEASE'' \<mapsto> ''true''] = ''manifest-prerelease.json''"
  "target_filename [''IS_PRERELEASE'' \<mapsto> ''false''] = ''manifest.json''"
  "target_filename [''IS_PRERELEASE'' \<mapsto> ''true ''] = ''manifest.json''"
  "target_filename [''IS_PRERELEASE'' \<mapsto> ''1''] = ''manifest.json''"
  "target_filename Map.empty = ''manifest.json''"
  by code_simp+

section \<open>The version string\<close>









section \<open>The download address\<close>

text \<open>
  C4. For every repository slug, tag name and artifact name, the \<^verbatim>\<open>sourceUrl\<close> of the new
  version entry is exactly
  \<^verbatim>\<open>https://github.com/<repoSlug>/releases/download/<tag>/<artifact>\<close>; the slug
  \<^verbatim>\<open>acme/plugin\<close>, the tag \<^verbatim>\<open>v2.0.0\<close> and the artifact \<^verbatim>\<open>plugin.zip\<close> give
  \<^verbatim>\<open>https://github.com/acme/plugin/releases/download/v2.0.0/plugin.zip\<close>.
\<close>

theorem source_url_exact:
  "json_get (new_version_entry build_config tag_name release_body (Some repo_slug) artifact_name
       checksum now) ''sourceUrl''
     = Some (JStr (''https://github.com/'' @ repo_slug @ ''/releases/download/'' @ tag_name
                     @ ''/'' @ artifact_name))
   \<and> json_get (new_version_entry build_config ''v2.0.0'' release_body (Some ''acme/plugin'')
       ''plugin.zip'' checksum now) ''sourceUrl''
     = Some (JStr ''https://github.com/acme/plugin/releases/download/v2.0.0/plugin.zip'')"
  by (simp add: json_get_def new_version_entry_def source_url_def format_opt_def)

section \<open>Loading the manifest\<close>

lemma load_manifest_world:
  "files (snd (load_manifest lib path w)) = files w"
  "undecodable (snd (load_manifest lib path w)) = undecodable w"
  "dirs (snd (load_manifest lib path w)) = dirs w"
  by (simp_all add: load_manifest_def read_manifest_def
      split: sum.splits py_error.splits)

lemma load_manifest_node_at [simp]: "node_at (snd (load_manifest lib path w)) = node_at w"
  by (simp add: node_at_def fun_eq_iff load_manifest_world)

lemma load_manifest_fst:
  "fst (load_manifest lib path w)
     = (case node_at w path of
          Missing \<Rightarrow> Inr (JList [])
        | Directory \<Rightarrow> Inl (IsADirectoryError path)
        | Undecodable \<Rightarrow> Inl UnicodeDecodeError
        | Text txt \<Rightarrow>
            (case json_load lib txt of
               Inl e \<Rightarrow> if e = JSONDecodeError then Inr (JList []) else Inl e
             | Inr v \<Rightarrow> Inr v))"
  by (simp add: load_manifest_def read_manifest_def path_exists_def read_text_def
      split: fs_node.splits sum.splits py_error.splits)

lemma load_manifest_stdout:
  "stdout (snd (load_manifest lib path w))
     = stdout w @
         (case node_at w path of
            Missing \<Rightarrow> [quoted path @ '' does not exist. A new one will be created.'']
          | Text txt \<Rightarrow>
              (if json_load lib txt = Inl JSONDecodeError
               then [quoted path @ '' is invalid JSON. A new one will be created.'']
               else [])
          | _ \<Rightarrow> [])"
  by (simp add: load_manifest_def read_manifest_def path_exists_def read_text_def
      split: fs_node.splits sum.splits py_error.splits)

text \<open>
  C5, as the claim states it: loading the manifest never raises, and a file whose contents
  do not parse as JSON gives the empty list. The handler catches \<^verbatim>\<open>JSONDecodeError\<close>
  only: a manifest file whose bytes do not decode as text makes the read raise
  \<^verbatim>\<open>UnicodeDecodeError\<close>, and the load raises it.
\<close>

theorem load_manifest_counterexample:
  "fst (load_manifest lib0 ''manifest-repo/manifest.json''
          (w0\<lparr>undecodable := {''manifest-repo/manifest.json''}\<rparr>))
     = Inl UnicodeDecodeError"
  by (simp add: load_manifest_fst node_at_def w0_def)

text \<open>
  C5, amended. Loading the manifest raises only when the path is there and cannot be read
  as text (it is a directory, or its bytes do not decode) or when \<^verbatim>\<open>json.load\<close> raises
  an error other than \<^verbatim>\<open>JSONDecodeError\<close>, and then it raises that error. Where
  nothing is at the path the result is the empty list; where \<^verbatim>\<open>json.load\<close> raises
  \<^verbatim>\<open>JSONDecodeError\<close> on the text of the file the result is the empty list and a
  warning is printed; where \<^verbatim>\<open>json.load\<close> parses the text the result is the parsed
  value. The file system is left as it was.
\<close>

theorem load_manifest_result:
  "fst (load_manifest lib path w)
     = (case node_at w path of
          Missing \<Rightarrow> Inr (JList [])
        | Directory \<Rightarrow> Inl (IsADirectoryError path)
        | Undecodable \<Rightarrow> Inl UnicodeDecodeError
        | Text txt \<Rightarrow>
            (case json_load lib txt of
               Inl e \<Rightarrow> if e = JSONDecodeError then Inr (JList []) else Inl e
             | Inr v \<Rightarrow> Inr v))
   \<and> stdout (snd (load_manifest lib path w))
     = stdout w @
         (case node_at w path of
            Missing \<Rightarrow> [quoted path @ '' does not exist. A new one will be created.'']
          | Text txt \<Rightarrow>
              (if json_load lib txt = Inl JSONDecodeError
               then [quoted path @ '' is invalid JSON. A new one will be created.'']
               else [])
          | _ \<Rightarrow> [])
   \<and> files (snd (load_manifest lib path w)) = files w
   \<and> undecodable (snd (load_manifest lib path w)) = undecodable w
   \<and> dirs (snd (load_manifest lib path w)) = dirs w"
  by (simp only: load_manifest_fst load_manifest_stdout load_manifest_world simp_thms)

lemma load_manifest_examples:
  "fst (load_manifest lib0 ''manifest-repo/manifest.json'' w0) = Inr (JList [])"
  "fst (load_manifest lib0 ''manifest-repo/manifest.json''
          (w0\<lparr>files := (files w0)(''manifest-repo/manifest.json'' \<mapsto> ''[]'')\<rparr>))
     = Inr (JList [])"
  "load_manifest lib0 ''manifest-repo/manifest.json''
          (w0\<lparr>files := (files w0)(''manifest-repo/manifest.json'' \<mapsto> ''[{'')\<rparr>)
     = (Inr (JList []),
        w0\<lparr>files := (files w0)(''manifest-repo/manifest.json'' \<mapsto> ''[{''),
           stdout := [quoted ''manifest-repo/manifest.json''
                        @ '' is invalid JSON. A new one will be created.'']\<rparr>)"
  "fst (load_manifest (lib0\<lparr>json_load := (\<lambda>s. Inl RecursionError)\<rparr>)
          ''manifest-repo/manifest.json''
          (w0\<lparr>files := (files w0)(''manifest-repo/manifest.json'' \<mapsto> ''[]'')\<rparr>))
     = Inl RecursionError"
  by (simp_all add: load_manifest_def read_manifest_def path_exists_def read_text_def
      node_at_def w0_def lib0_def print_def)

lemma upsert_world:
  "files (snd (upsert g cfg e m w)) = files w"
  "undecodable (snd (upsert g cfg e m w)) = undecodable w"
  "dirs (snd (upsert g cfg e m w)) = dirs w"
  by (simp_all add: upsert_def split: sum.splits prod.splits)

lemma try_step_Inl: "fst r = Inl e \<Longrightarrow> try_step r k = (Some e, snd r)"
  by (cases r) (simp add: try_step_def raise_def)

lemma try_step_Inr: "fst r = Inr x \<Longrightarrow> try_step r k = k x (snd r)"
  by (cases r) (simp add: try_step_def)

section \<open>Missing inputs\<close>

lemma same_fs_refl [simp]: "same_fs w w"
  by (simp add: same_fs_def)

lemma same_fs_print [simp]: "same_fs w (print w' l) = same_fs w w'"
  by (simp add: same_fs_def)

lemma halted_raise: "same_fs w w' \<Longrightarrow> halted w (raise e w')"
  by (simp add: halted_def raise_def)

lemma halted_require:
  "same_fs w w' \<Longrightarrow> (\<And>x. v = Some x \<Longrightarrow> halted w (k x)) \<Longrightarrow> halted w (require v e w' k)"
  by (cases v) (simp_all add: require_def halted_raise)

lemma halted_attempt:
  "same_fs w w' \<Longrightarrow> (\<And>x. r = Inr x \<Longrightarrow> halted w (k x)) \<Longrightarrow> halted w (attempt r w' k)"
  by (cases r) (simp_all add: attempt_def halted_raise)

lemma checksum_no_file:
  "files w checksum_file = None \<Longrightarrow>
     checksum_exists w = None \<or> (\<exists>e. read_text w checksum_file = Inl e)"
  by (simp add: checksum_exists_def path_exists_def read_text_def node_at_def)

lemma main_halted:
  assumes "environ ''PLUGIN_GUID'' = None \<or> environ ''PLUGIN_GUID'' = Some []
         \<or> environ ''GITHUB_REF_NAME'' = None \<or> environ ''GITHUB_REF_NAME'' = Some []
         \<or> environ ''ARTIFACT_NAME'' = None \<or> environ ''ARTIFACT_NAME'' = Some []
         \<or> files w checksum_file = None"
  shows "halted w (main lib environ now w)"
proof -
  from assms checksum_no_file [of w]
  have "nonempty_value (environ ''PLUGIN_GUID'') = None
      \<or> nonempty_value (environ ''GITHUB_REF_NAME'') = None
      \<or> nonempty_value (environ ''ARTIFACT_NAME'') = None
      \<or> checksum_exists w = None \<or> (\<exists>e. read_text w checksum_file = Inl e)"
    by (auto simp add: nonempty_value_None_iff)
  then show ?thesis
    unfolding main_def Let_def
    by (intro halted_require halted_attempt) auto
qed

lemma main_halts_unwritten:
  assumes "environ ''PLUGIN_GUID'' = None \<or> environ ''PLUGIN_GUID'' = Some []
         \<or> environ ''GITHUB_REF_NAME'' = None \<or> environ ''GITHUB_REF_NAME'' = Some []
         \<or> environ ''ARTIFACT_NAME'' = None \<or> environ ''ARTIFACT_NAME'' = Some []
         \<or> files w checksum_file = None"
  shows "fst (main lib environ now w) \<noteq> None \<and> files (snd (main lib environ now w)) = files w
       \<and> undecodable (snd (main lib environ now w)) = undecodable w
       \<and> dirs (snd (main lib environ now w)) = dirs w"
  using main_halted [OF assms] by (simp add: halted_def same_fs_def)

text \<open>The error of each missing input, when the steps before it pass.\<close>

lemma main_missing_errors:
  "nonempty_value (environ ''PLUGIN_GUID'') = None \<Longrightarrow>
     fst (main lib environ now w) = Some (ValueError ''Environment variable PLUGIN_GUID is missing'')"
  "nonempty_value (environ ''PLUGIN_GUID'') = Some g \<Longrightarrow> read_text w build_file = Inr y \<Longrightarrow>
   yaml_safe_load lib y = Inr c \<Longrightarrow> nonempty_value (environ ''GITHUB_REF_NAME'') = None \<Longrightarrow>
     fst (main lib environ now w) = Some (ValueError ''GITHUB_REF_NAME is missing'')"
  "nonempty_value (environ ''PLUGIN_GUID'') = Some g \<Longrightarrow> read_text w build_file = Inr y \<Longrightarrow>
   yaml_safe_load lib y = Inr (JDict cfg) \<Longrightarrow>
   nonempty_value (environ ''GITHUB_REF_NAME'') = Some t \<Longrightarrow>
   nonempty_value (environ ''ARTIFACT_NAME'') = None \<Longrightarrow>
     fst (main lib environ now w)
       = Some (ValueError ''ARTIFACT_NAME environment variable is missing'')"
  "nonempty_value (environ ''PLUGIN_GUID'') = Some g \<Longrightarrow> read_text w build_file = Inr y \<Longrightarrow>
   yaml_safe_load lib y = Inr (JDict cfg) \<Longrightarrow>
   nonempty_value (environ ''GITHUB_REF_NAME'') = Some t \<Longrightarrow>
   nonempty_value (environ ''ARTIFACT_NAME'') = Some a \<Longrightarrow> \<not> path_exists w checksum_file \<Longrightarrow>
     fst (main lib environ now w)
       = Some (FileNotFoundError (''Checksum file not found at '' @ checksum_file))"
  by (simp_all add: main_def Let_def as_dict_def checksum_exists_def)

text \<open>
  C7. Whenever \<^verbatim>\<open>PLUGIN_GUID\<close>, \<^verbatim>\<open>GITHUB_REF_NAME\<close> or \<^verbatim>\<open>ARTIFACT_NAME\<close> is
  missing (unset or empty), or the checksum file does not exist, the run ends with an
  error and nothing has been written: the files, the manifest among them, and the
  directories are what they were before the run.
\<close>

theorem main_missing_input:
  assumes "environ ''PLUGIN_GUID'' = None \<or> environ ''PLUGIN_GUID'' = Some []
         \<or> environ ''GITHUB_REF_NAME'' = None \<or> environ ''GITHUB_REF_NAME'' = Some []
         \<or> environ ''ARTIFACT_NAME'' = None \<or> environ ''ARTIFACT_NAME'' = Some []
         \<or> files w checksum_file = None"
  shows "(\<exists>e. fst (main lib environ now w) = Some e)
       \<and> files (snd (main lib environ now w)) = files w
       \<and> undecodable (snd (main lib environ now w)) = undecodable w
       \<and> dirs (snd (main lib environ now w)) = dirs w"
  using main_halts_unwritten [OF assms] by auto

theorem main_missing_input_witness:
  "files (w0\<lparr>files := (files w0)(''checksum.txt'' := None)\<rparr>) checksum_file = None
   \<and> fst (main lib0 env0 ''2024-05-01T12:00:00Z'' (w0\<lparr>files := (files w0)(''checksum.txt'' := None)\<rparr>))
       = Some (FileNotFoundError ''Checksum file not found at checksum.txt'')
   \<and> files (snd (main lib0 env0 ''2024-05-01T12:00:00Z''
                   (w0\<lparr>files := (files w0)(''checksum.txt'' := None)\<rparr>)))
       = files (w0\<lparr>files := (files w0)(''checksum.txt'' := None)\<rparr>)"
proof -
  let ?w = "w0\<lparr>files := (files w0)(''checksum.txt'' := None)\<rparr>"
  have c: "files ?w checksum_file = None"
    by (simp add: checksum_file_def)
  then have h: "env0 ''PLUGIN_GUID'' = None \<or> env0 ''PLUGIN_GUID'' = Some []
         \<or> env0 ''GITHUB_REF_NAME'' = None \<or> env0 ''GITHUB_REF_NAME'' = Some []
         \<or> env0 ''ARTIFACT_NAME'' = None \<or> env0 ''ARTIFACT_NAME'' = Some []
         \<or> files ?w checksum_file = None" by simp
  have e: "fst (main lib0 env0 ''2024-05-01T12:00:00Z'' ?w)
       = Some (FileNotFoundError ''Checksum file not found at checksum.txt'')"
    by (simp add: run_defs)
  from main_missing_input [OF h, of lib0 "''2024-05-01T12:00:00Z''"] c e
  show ?thesis by simp
qed

lemma is_prerelease_upd [simp]:
  "k \<noteq> ''IS_PRERELEASE'' \<Longrightarrow> is_prerelease (environ(k := v)) = is_prerelease environ"
  by (simp add: is_prerelease_def env_get_def)

lemma target_filename_upd [simp]:
  "k \<noteq> ''IS_PRERELEASE'' \<Longrightarrow> target_filename (environ(k := v)) = target_filename environ"
  by (simp add: target_filename_def)

lemma manifest_file_upd [simp]:
  "k \<noteq> ''IS_PRERELEASE'' \<Longrightarrow> manifest_file (environ(k := v)) = manifest_file environ"
  by (simp add: manifest_file_def)

lemma emit_output_upd [simp]:
  "k \<noteq> ''GITHUB_OUTPUT'' \<Longrightarrow> emit_output lib (environ(k := v)) = emit_output lib environ"
  by (simp add: emit_output_def fun_eq_iff)

lemma main_empty_PLUGIN_GUID:
  "main lib (environ(''PLUGIN_GUID'' \<mapsto> [])) now w = main lib (environ(''PLUGIN_GUID'' := None)) now w"
  by (simp add: main_def Let_def)

lemma main_empty_GITHUB_REF_NAME:
  "main lib (environ(''GITHUB_REF_NAME'' \<mapsto> [])) now w = main lib (environ(''GITHUB_REF_NAME'' := None)) now w"
  by (simp add: main_def Let_def)

lemma main_empty_ARTIFACT_NAME:
  "main lib (environ(''ARTIFACT_NAME'' \<mapsto> [])) now w = main lib (environ(''ARTIFACT_NAME'' := None)) now w"
  by (simp add: main_def Let_def env_get_def)

text \<open>
  C9. For each of \<^verbatim>\<open>PLUGIN_GUID\<close>, \<^verbatim>\<open>GITHUB_REF_NAME\<close> and \<^verbatim>\<open>ARTIFACT_NAME\<close>, a
  run with the variable set to the empty string is the run with the variable unset: the
  same error, the same output, the same files; and it is an error.
\<close>

theorem main_empty_like_unset:
  assumes "k = ''PLUGIN_GUID'' \<or> k = ''GITHUB_REF_NAME'' \<or> k = ''ARTIFACT_NAME''"
  shows "main lib (environ(k \<mapsto> [])) now w = main lib (environ(k := None)) now w
       \<and> (\<exists>e. fst (main lib (environ(k \<mapsto> [])) now w) = Some e)"
proof -
  have "main lib (environ(k \<mapsto> [])) now w = main lib (environ(k := None)) now w"
    using assms main_empty_PLUGIN_GUID main_empty_GITHUB_REF_NAME main_empty_ARTIFACT_NAME
    by blast
  moreover have "fst (main lib (environ(k \<mapsto> [])) now w) \<noteq> None"
    using assms main_halts_unwritten [of "environ(k \<mapsto> [])" w lib now] by auto
  ultimately show ?thesis by auto
qed

theorem main_empty_like_unset_witness:
  "main lib0 (env0(''ARTIFACT_NAME'' \<mapsto> [])) ''2024-05-01T12:00:00Z'' w0
     = main lib0 (env0(''ARTIFACT_NAME'' := None)) ''2024-05-01T12:00:00Z'' w0
   \<and> fst (main lib0 (env0(''ARTIFACT_NAME'' \<mapsto> [])) ''2024-05-01T12:00:00Z'' w0)
       = Some (ValueError ''ARTIFACT_NAME environment variable is missing'')
   \<and> fst (main lib0 (env0(''ARTIFACT_NAME'' := None)) ''2024-05-01T12:00:00Z'' w0)
       = Some (ValueError ''ARTIFACT_NAME environment variable is missing'')"
proof -
  have k: "''ARTIFACT_NAME'' = ''PLUGIN_GUID'' \<or> ''ARTIFACT_NAME'' = ''GITHUB_REF_NAME''
         \<or> ''ARTIFACT_NAME'' = ''ARTIFACT_NAME''" by simp
  have e: "fst (main lib0 (env0(''ARTIFACT_NAME'' := None)) ''2024-05-01T12:00:00Z'' w0)
       = Some (ValueError ''ARTIFACT_NAME environment variable is missing'')"
    by (simp add: run_defs)
  from main_empty_like_unset [OF k, of lib0 env0 "''2024-05-01T12:00:00Z''" w0] e
  show ?thesis by simp
qed

section \<open>The upsert\<close>

lemma find_plugin_none:
  "list_all (other_plugin g) ps \<Longrightarrow> find_plugin g cfg e ps = Inr (False, ps)"
  by (induction ps) (auto simp add: other_plugin_def split: json.splits)

lemma find_plugin_first:
  assumes "list_all (other_plugin g) pre"
    and "map_of d ''guid'' = Some (JStr g)"
  shows "find_plugin g cfg e (pre @ JDict d # post)
    = (case insert_version e (update_metadata cfg d) of
         Inl err \<Rightarrow> Inl err
       | Inr d' \<Rightarrow> Inr (True, pre @ JDict d' # post))"
  using assms
  by (induction pre) (auto simp add: other_plugin_def split: json.splits sum.splits)

lemma find_plugin_False:
  "find_plugin g cfg e ps = Inr (False, ps') \<Longrightarrow> ps' = ps \<and> list_all (other_plugin g) ps"
  by (induction ps arbitrary: ps')
     (auto simp add: other_plugin_def split: json.splits sum.splits if_splits prod.splits)

lemma find_plugin_True:
  "find_plugin g cfg e ps = Inr (True, ps') \<Longrightarrow>
     \<exists>pre d post d'. ps = pre @ JDict d # post \<and> list_all (other_plugin g) pre
        \<and> map_of d ''guid'' = Some (JStr g)
        \<and> insert_version e (update_metadata cfg d) = Inr d'
        \<and> ps' = pre @ JDict d' # post"
proof (induction ps arbitrary: ps')
  case Nil
  then show ?case by simp
next
  case (Cons p ps)
  then obtain d where p: "p = JDict d"
    by (auto split: json.splits)
  show ?case
  proof (cases "map_of d ''guid'' = Some (JStr g)")
    case True
    with Cons.prems p obtain d' where "insert_version e (update_metadata cfg d) = Inr d'"
      and "ps' = JDict d' # ps"
      by (auto split: sum.splits)
    with True p have "p # ps = [] @ JDict d # ps \<and> list_all (other_plugin g) []
        \<and> map_of d ''guid'' = Some (JStr g)
        \<and> insert_version e (update_metadata cfg d) = Inr d'
        \<and> ps' = [] @ JDict d' # ps" by simp
    then show ?thesis by blast
  next
    case False
    with Cons.prems p obtain rest' where r: "find_plugin g cfg e ps = Inr (True, rest')"
      and ps': "ps' = p # rest'"
      by (auto split: sum.splits prod.splits)
    from Cons.IH [OF r] obtain pre d0 post d' where
      "ps = pre @ JDict d0 # post" "list_all (other_plugin g) pre"
      "map_of d0 ''guid'' = Some (JStr g)"
      "insert_version e (update_metadata cfg d0) = Inr d'"
      "rest' = pre @ JDict d' # post" by blast
    with False p ps' have "p # ps = (p # pre) @ JDict d0 # post
        \<and> list_all (other_plugin g) (p # pre)
        \<and> map_of d0 ''guid'' = Some (JStr g)
        \<and> insert_version e (update_metadata cfg d0) = Inr d'
        \<and> ps' = (p # pre) @ JDict d' # post"
      by (simp add: other_plugin_def)
    then show ?thesis by blast
  qed
qed

lemma map_of_update_metadata:
  "map_of (update_metadata cfg d) =
     (map_of d)(''category'' \<mapsto> dict_get cfg ''category'' (JStr ''General''),
                ''name'' \<mapsto> dict_get cfg ''name'' (JStr ''Unknown Plugin''),
                ''description'' \<mapsto> dict_get cfg ''description'' (JStr []),
                ''owner'' \<mapsto> dict_get cfg ''owner'' (JStr ''Unknown Owner''),
                ''overview'' \<mapsto> dict_get cfg ''overview'' (JStr []))"
  by (simp add: update_metadata_def update_conv')

lemma insert_version_list:
  "map_of d ''versions'' = Some (JList vs) \<Longrightarrow>
     insert_version e (update_metadata cfg d)
       = Inr (AList.update ''versions'' (JList (e # vs)) (update_metadata cfg d))"
  by (simp add: insert_version_def map_of_update_metadata)


lemma insert_version_Inr:
  "insert_version e d = Inr d' \<Longrightarrow>
     \<exists>vs. map_of d ''versions'' = Some (JList vs) \<and> d' = AList.update ''versions'' (JList (e # vs)) d"
  by (auto simp add: insert_version_def split: option.splits json.splits)

lemma upsert_list:
  "fst (upsert g cfg e (JList ps) w) =
     (case find_plugin g cfg e ps of
        Inl err \<Rightarrow> Inl err
      | Inr (found, ps') \<Rightarrow>
          if found then Inr (JList ps') else Inr (JList (ps' @ [new_plugin_entry_obj g cfg e])))"
  by (simp add: upsert_def py_iter_def store_items_def py_append_def split: sum.splits prod.splits)

text \<open>
  In a manifest of plugin entries that holds an entry with the guid, the scan finds one:
  the first such entry, with entries of other guids before it.
\<close>

lemma manifest_first_match:
  assumes "\<forall>e\<in>set ps. \<exists>d. e = JDict d"
    and "\<exists>e\<in>set ps. entry_guid e = Some (JStr g)"
  shows "\<exists>pre p post. ps = pre @ JDict p # post \<and> list_all (other_plugin g) pre
           \<and> map_of p ''guid'' = Some (JStr g)"
proof -
  from assms(2) obtain pre x post where ps: "ps = pre @ x # post"
    and x: "entry_guid x = Some (JStr g)"
    and pre: "\<forall>y\<in>set pre. entry_guid y \<noteq> Some (JStr g)"
    using split_list_first_prop [of ps "\<lambda>e. entry_guid e = Some (JStr g)"] by blast
  from assms(1) ps obtain p where p: "x = JDict p" by auto
  have "list_all (other_plugin g) pre"
    unfolding list_all_iff
  proof
    fix y assume y: "y \<in> set pre"
    with assms(1) ps obtain d where "y = JDict d" by auto
    with pre y show "other_plugin g y"
      by (auto simp add: other_plugin_def entry_guid_def json_get_def)
  qed
  moreover from x p have "map_of p ''guid'' = Some (JStr g)"
    by (simp add: entry_guid_def json_get_def)
  ultimately show ?thesis using ps p by blast
qed

text \<open>
  C1. For every manifest that holds an entry with the given guid (the entry the scan
  finds: the plugin entries before it have other guids), the upsert leaves the length of
  the manifest and every other entry as they were, sets the entry's category, name,
  description, owner and overview from the build config (with the defaults for absent
  keys), leaves its other fields alone, and makes its version list the new version entry
  followed by the prior version entries in their order.
\<close>

theorem upsert_existing:
  assumes "list_all (other_plugin plugin_guid) pre"
    and "map_of p ''guid'' = Some (JStr plugin_guid)"
    and "map_of p ''versions'' = Some (JList vs)"
  shows "\<exists>p'. fst (upsert plugin_guid build_config entry (JList (pre @ JDict p # post)) w)
                = Inr (JList (pre @ JDict p' # post))
    \<and> length (pre @ JDict p' # post) = length (pre @ JDict p # post)
    \<and> map_of p' ''category''
        = Some (case map_of build_config ''category'' of None \<Rightarrow> JStr ''General'' | Some v \<Rightarrow> v)
    \<and> map_of p' ''name''
        = Some (case map_of build_config ''name'' of None \<Rightarrow> JStr ''Unknown Plugin'' | Some v \<Rightarrow> v)
    \<and> map_of p' ''description''
        = Some (case map_of build_config ''description'' of None \<Rightarrow> JStr [] | Some v \<Rightarrow> v)
    \<and> map_of p' ''owner''
        = Some (case map_of build_config ''owner'' of None \<Rightarrow> JStr ''Unknown Owner'' | Some v \<Rightarrow> v)
    \<and> map_of p' ''overview''
        = Some (case map_of build_config ''overview'' of None \<Rightarrow> JStr [] | Some v \<Rightarrow> v)
    \<and> map_of p' ''versions'' = Some (JList (entry # vs))
    \<and> (\<forall>k. k \<notin> {''category'', ''name'', ''description'', ''owner'', ''overview'', ''versions''}
          \<longrightarrow> map_of p' k = map_of p k)"
proof -
  define p' where "p' = AList.update ''versions'' (JList (entry # vs)) (update_metadata build_config p)"
  have ins: "insert_version entry (update_metadata build_config p) = Inr p'"
    using assms(3) by (simp add: insert_version_list p'_def)
  have "find_plugin plugin_guid build_config entry (pre @ JDict p # post)
          = Inr (True, pre @ JDict p' # post)"
    using assms(1,2) by (simp add: find_plugin_first ins)
  then have res: "fst (upsert plugin_guid build_config entry (JList (pre @ JDict p # post)) w)
                = Inr (JList (pre @ JDict p' # post))"
    by (simp add: upsert_list)
  have m: "map_of p' =
     (map_of p)(''category'' \<mapsto> dict_get build_config ''category'' (JStr ''General''),
                ''name'' \<mapsto> dict_get build_config ''name'' (JStr ''Unknown Plugin''),
                ''description'' \<mapsto> dict_get build_config ''description'' (JStr []),
                ''owner'' \<mapsto> dict_get build_config ''owner'' (JStr ''Unknown Owner''),
                ''overview'' \<mapsto> dict_get build_config ''overview'' (JStr []),
                ''versions'' \<mapsto> JList (entry # vs))"
    by (simp add: p'_def update_conv' map_of_update_metadata)
  have "map_of p' ''category''
        = Some (case map_of build_config ''category'' of None \<Rightarrow> JStr ''General'' | Some v \<Rightarrow> v)"
    and "map_of p' ''name''
        = Some (case map_of build_config ''name'' of None \<Rightarrow> JStr ''Unknown Plugin'' | Some v \<Rightarrow> v)"
    and "map_of p' ''description''
        = Some (case map_of build_config ''description'' of None \<Rightarrow> JStr [] | Some v \<Rightarrow> v)"
    and "map_of p' ''owner''
        = Some (case map_of build_config ''owner'' of None \<Rightarrow> JStr ''Unknown Owner'' | Some v \<Rightarrow> v)"
    and "map_of p' ''overview''
        = Some (case map_of build_config ''overview'' of None \<Rightarrow> JStr [] | Some v \<Rightarrow> v)"
    and "map_of p' ''versions'' = Some (JList (entry # vs))"
    and "\<forall>k. k \<notin> {''category'', ''name'', ''description'', ''owner'', ''overview'', ''versions''}
          \<longrightarrow> map_of p' k = map_of p k"
    by (simp_all add: m dict_get_def)
  with res show ?thesis by auto
qed

theorem upsert_existing_witness:
  "list_all (other_plugin ''G1'') (take 1 manifest0)
   \<and> (\<exists>p'. fst (upsert ''G1'' cfg0 entry0 (JList manifest0) w0)
               = Inr (JList (take 1 manifest0 @ [JDict p']))
        \<and> map_of p' ''category'' = Some (JStr ''Tools'')
        \<and> map_of p' ''name'' = Some (JStr ''Foo'')
        \<and> map_of p' ''description'' = Some (JStr [])
        \<and> map_of p' ''owner'' = Some (JStr ''Unknown Owner'')
        \<and> map_of p' ''overview'' = Some (JStr [])
        \<and> map_of p' ''versions'' = Some (JList [entry0, old_version])
        \<and> map_of p' ''guid'' = Some (JStr ''G1''))"
proof -
  let ?pre = "[JDict [(''guid'', JStr ''G0''), (''name'', JStr ''Other''), (''versions'', JList [])]]"
  let ?p = "[(''category'', JStr ''Old''), (''guid'', JStr ''G1''), (''name'', JStr ''Old name''),
             (''versions'', JList [old_version])]"
  have m: "manifest0 = ?pre @ JDict ?p # []" "take 1 manifest0 = ?pre"
    by (simp_all add: manifest0_def)
  have h1: "list_all (other_plugin ''G1'') ?pre"
    by (simp add: other_plugin_def)
  have h2: "map_of ?p ''guid'' = Some (JStr ''G1'')" by simp
  have h3: "map_of ?p ''versions'' = Some (JList [old_version])" by simp
  from upsert_existing [OF h1 h2 h3, of cfg0 entry0 "[]" w0]
  obtain p' where r: "fst (upsert ''G1'' cfg0 entry0 (JList (?pre @ JDict ?p # [])) w0)
                = Inr (JList (?pre @ JDict p' # []))"
    and c: "map_of p' ''category''
        = Some (case map_of cfg0 ''category'' of None \<Rightarrow> JStr ''General'' | Some v \<Rightarrow> v)"
    and n: "map_of p' ''name''
        = Some (case map_of cfg0 ''name'' of None \<Rightarrow> JStr ''Unknown Plugin'' | Some v \<Rightarrow> v)"
    and d: "map_of p' ''description''
        = Some (case map_of cfg0 ''description'' of None \<Rightarrow> JStr [] | Some v \<Rightarrow> v)"
    and ow: "map_of p' ''owner''
        = Some (case map_of cfg0 ''owner'' of None \<Rightarrow> JStr ''Unknown Owner'' | Some v \<Rightarrow> v)"
    and ov: "map_of p' ''overview''
        = Some (case map_of cfg0 ''overview'' of None \<Rightarrow> JStr [] | Some v \<Rightarrow> v)"
    and v: "map_of p' ''versions'' = Some (JList (entry0 # [old_version]))"
    and k: "\<forall>k. k \<notin> {''category'', ''name'', ''description'', ''owner'', ''overview'', ''versions''}
          \<longrightarrow> map_of p' k = map_of ?p k"
    by (elim exE conjE) (rule that, assumption+)
  from k have g: "map_of p' ''guid'' = Some (JStr ''G1'')" by simp
  have r': "fst (upsert ''G1'' cfg0 entry0 (JList manifest0) w0)
               = Inr (JList (take 1 manifest0 @ [JDict p']))"
    using r by (simp add: manifest0_def)
  from c have c': "map_of p' ''category'' = Some (JStr ''Tools'')" by (simp add: cfg0_def)
  from n have n': "map_of p' ''name'' = Some (JStr ''Foo'')" by (simp add: cfg0_def)
  from d have d': "map_of p' ''description'' = Some (JStr [])" by (simp add: cfg0_def)
  from ow have ow': "map_of p' ''owner'' = Some (JStr ''Unknown Owner'')" by (simp add: cfg0_def)
  from ov have ov': "map_of p' ''overview'' = Some (JStr [])" by (simp add: cfg0_def)
  from h1 have h1': "list_all (other_plugin ''G1'') (take 1 manifest0)" by (simp only: m(2))
  from r' c' n' d' ow' ov' v g have "\<exists>p'. fst (upsert ''G1'' cfg0 entry0 (JList manifest0) w0)
               = Inr (JList (take 1 manifest0 @ [JDict p']))
        \<and> map_of p' ''category'' = Some (JStr ''Tools'')
        \<and> map_of p' ''name'' = Some (JStr ''Foo'')
        \<and> map_of p' ''description'' = Some (JStr [])
        \<and> map_of p' ''owner'' = Some (JStr ''Unknown Owner'')
        \<and> map_of p' ''overview'' = Some (JStr [])
        \<and> map_of p' ''versions'' = Some (JList [entry0, old_version])
        \<and> map_of p' ''guid'' = Some (JStr ''G1'')"
    by (intro exI [of _ p'] conjI)
  with h1' show ?thesis by (rule conjI)
qed

text \<open>
  C2. For every manifest of plugin entries none of which has the given guid, the upsert
  appends one entry at the end, so the length grows by one and the entries before are
  unchanged: its versions are exactly the new version entry, its guid is the given one,
  and its other fields come from the build config, with \<^verbatim>\<open>General\<close>,
  \<^verbatim>\<open>Unknown Plugin\<close>, the empty string, \<^verbatim>\<open>Unknown Owner\<close> and the empty string for
  an absent category, name, description, owner and overview.
\<close>

theorem upsert_new:
  assumes "list_all (other_plugin plugin_guid) ps"
  shows "fst (upsert plugin_guid build_config entry (JList ps) w)
    = Inr (JList (ps @
        [JDict [(''category'', case map_of build_config ''category'' of None \<Rightarrow> JStr ''General'' | Some v \<Rightarrow> v),
                (''guid'', JStr plugin_guid),
                (''name'', case map_of build_config ''name'' of None \<Rightarrow> JStr ''Unknown Plugin'' | Some v \<Rightarrow> v),
                (''description'', case map_of build_config ''description'' of None \<Rightarrow> JStr [] | Some v \<Rightarrow> v),
                (''owner'', case map_of build_config ''owner'' of None \<Rightarrow> JStr ''Unknown Owner'' | Some v \<Rightarrow> v),
                (''overview'', case map_of build_config ''overview'' of None \<Rightarrow> JStr [] | Some v \<Rightarrow> v),
                (''versions'', JList [entry])]]))
     \<and> length (ps @ [new_plugin_entry_obj plugin_guid build_config entry]) = length ps + 1"
  using assms
  by (simp add: upsert_list find_plugin_none new_plugin_entry_obj_def dict_get_def)

lemma other_plugin_guid: "other_plugin g e \<Longrightarrow> entry_guid e \<noteq> Some (JStr g)"
  by (auto simp add: other_plugin_def entry_guid_def json_get_def split: json.splits)

lemma guids_others:
  "list_all (other_plugin g) ps \<Longrightarrow> JStr g \<notin> set (List.map_filter entry_guid ps)"
  by (induction ps) (auto simp add: map_filter_simps dest: other_plugin_guid split: option.splits)

lemma map_filter_append: "List.map_filter f (xs @ ys) = List.map_filter f xs @ List.map_filter f ys"
  by (simp add: List.map_filter_def)

theorem upsert_new_witness:
  "list_all (other_plugin ''G1'') []
   \<and> fst (upsert ''G1'' cfg0 entry0 (JList []) w0)
      = Inr (JList [JDict [(''category'', JStr ''Tools''), (''guid'', JStr ''G1''),
                           (''name'', JStr ''Foo''), (''description'', JStr []),
                           (''owner'', JStr ''Unknown Owner''), (''overview'', JStr []),
                           (''versions'', JList [entry0])]])
   \<and> list_all (other_plugin ''G2'') manifest0
   \<and> fst (upsert ''G2'' [] entry0 (JList manifest0) w0)
      = Inr (JList (manifest0 @
               [JDict [(''category'', JStr ''General''), (''guid'', JStr ''G2''),
                       (''name'', JStr ''Unknown Plugin''), (''description'', JStr []),
                       (''owner'', JStr ''Unknown Owner''), (''overview'', JStr []),
                       (''versions'', JList [entry0])]]))"
proof -
  have h1: "list_all (other_plugin ''G1'') []" by simp
  have h2: "list_all (other_plugin ''G2'') manifest0"
    by (simp add: manifest0_def other_plugin_def)
  from upsert_new [OF h1, of cfg0 entry0 w0] upsert_new [OF h2, of "[]" entry0 w0] h1 h2
  show ?thesis by (simp add: cfg0_def)
qed

text \<open>
  C8. The upsert preserves the uniqueness of guids: when no two entries of the manifest
  have the same guid, no two entries of the manifest the upsert returns have, whether the
  plugin was found or appended.
\<close>

theorem upsert_unique_guids:
  assumes "fst (upsert plugin_guid build_config entry manifest_data w) = Inr manifest_data'"
    and "unique_guids manifest_data"
  shows "unique_guids manifest_data'"
proof -
  from assms(2) obtain ps where m: "manifest_data = JList ps"
    and d: "distinct (List.map_filter entry_guid ps)"
    by (auto simp add: unique_guids_def split: json.splits)
  from assms(1) m obtain found ps' where f: "find_plugin plugin_guid build_config entry ps = Inr (found, ps')"
    by (auto simp add: upsert_list split: sum.splits)
  show ?thesis
  proof (cases found)
    case False
    with f have "find_plugin plugin_guid build_config entry ps = Inr (False, ps')" by simp
    from find_plugin_False [OF this]
    have "ps' = ps" and o: "list_all (other_plugin plugin_guid) ps" by simp_all
    with f False assms(1) m
    have r: "manifest_data' = JList (ps @ [new_plugin_entry_obj plugin_guid build_config entry])"
      by (simp add: upsert_list)
    have "entry_guid (new_plugin_entry_obj plugin_guid build_config entry) = Some (JStr plugin_guid)"
      by (simp add: entry_guid_def json_get_def new_plugin_entry_obj_def)
    then have "List.map_filter entry_guid (ps @ [new_plugin_entry_obj plugin_guid build_config entry])
       = List.map_filter entry_guid ps @ [JStr plugin_guid]"
      by (simp add: map_filter_append map_filter_simps)
    with d guids_others [OF o] r show ?thesis
      by (simp add: unique_guids_def)
  next
    case True
    with f have "find_plugin plugin_guid build_config entry ps = Inr (True, ps')" by simp
    from find_plugin_True [OF this]
    obtain pre p post p' where ps: "ps = pre @ JDict p # post"
      and i: "insert_version entry (update_metadata build_config p) = Inr p'"
      and ps': "ps' = pre @ JDict p' # post"
      by blast
    from insert_version_Inr [OF i]
    have "map_of p' ''guid'' = map_of p ''guid''"
      by (auto simp add: update_conv' map_of_update_metadata)
    then have "entry_guid (JDict p') = entry_guid (JDict p)"
      by (simp add: entry_guid_def json_get_def)
    then have "List.map_filter entry_guid ps' = List.map_filter entry_guid ps"
      by (simp add: ps ps' map_filter_append map_filter_simps)
    moreover from f True assms(1) m have "manifest_data' = JList ps'"
      by (simp add: upsert_list)
    ultimately show ?thesis using d by (simp add: unique_guids_def)
  qed
qed

theorem upsert_unique_guids_witness:
  "unique_guids (JList manifest0)
   \<and> fst (upsert ''G1'' cfg0 entry0 (JList manifest0) w0)
       = Inr (JList [JDict [(''guid'', JStr ''G0''), (''name'', JStr ''Other''),
                            (''versions'', JList [])],
                     JDict [(''category'', JStr ''Tools''), (''guid'', JStr ''G1''),
                            (''name'', JStr ''Foo''),
                            (''versions'', JList [entry0, old_version]),
                            (''description'', JStr []), (''owner'', JStr ''Unknown Owner''),
                            (''overview'', JStr [])]])
   \<and> unique_guids
        (JList [JDict [(''guid'', JStr ''G0''), (''name'', JStr ''Other''),
                       (''versions'', JList [])],
                JDict [(''category'', JStr ''Tools''), (''guid'', JStr ''G1''),
                       (''name'', JStr ''Foo''),
                       (''versions'', JList [entry0, old_version]),
                       (''description'', JStr []), (''owner'', JStr ''Unknown Owner''),
                       (''overview'', JStr [])]])"
proof -
  have h1: "fst (upsert ''G1'' cfg0 entry0 (JList manifest0) w0)
       = Inr (JList [JDict [(''guid'', JStr ''G0''), (''name'', JStr ''Other''),
                            (''versions'', JList [])],
                     JDict [(''category'', JStr ''Tools''), (''guid'', JStr ''G1''),
                            (''name'', JStr ''Foo''),
                            (''versions'', JList [entry0, old_version]),
                            (''description'', JStr []), (''owner'', JStr ''Unknown Owner''),
                            (''overview'', JStr [])]])"
    by (simp add: upsert_list manifest0_def cfg0_def insert_version_def update_metadata_def
        dict_get_def)
  have h2: "unique_guids (JList manifest0)"
    by (simp add: unique_guids_def manifest0_def map_filter_simps entry_guid_def json_get_def)
  from upsert_unique_guids [OF h1 h2] h1 h2 show ?thesis by simp
qed

section \<open>A run without \<^verbatim>\<open>GITHUB_REPOSITORY\<close>\<close>

lemma upsert_fst_world: "fst (upsert g cfg e m w) = fst (upsert g cfg e m w')"
  by (simp add: upsert_def split: sum.splits prod.splits)

lemma upsert_node_at [simp]: "node_at (snd (upsert g cfg e m w)) = node_at w"
  by (simp add: node_at_def fun_eq_iff upsert_world)

lemma load_manifest_fst_print:
  "fst (load_manifest lib path (print w l)) = fst (load_manifest lib path w)"
  by (simp add: load_manifest_fst)

lemma read_text_exists: "read_text w path = Inr txt \<Longrightarrow> path_exists w path"
  by (auto simp add: read_text_def path_exists_def split: fs_node.splits)

lemma main_run:
  assumes "nonempty_value (environ ''PLUGIN_GUID'') = Some plugin_guid"
    and "read_text w build_file = Inr yaml_text"
    and "yaml_safe_load lib yaml_text = Inr (JDict cfg)"
    and "nonempty_value (environ ''GITHUB_REF_NAME'') = Some tag_name"
    and "nonempty_value (environ ''ARTIFACT_NAME'') = Some artifact_name"
    and "read_text w checksum_file = Inr checksum_text"
  shows "main lib environ now w =
     try_step
       (load_manifest lib (manifest_file environ)
         (print (print (print w (''Release type detected: ''
                    @ (if is_prerelease environ then ''Prerelease'' else ''Stable'')))
                  (''Updating file: '' @ target_filename environ))
            (''Reading build config from: '' @ build_file)))
       (\<lambda>manifest_data w4.
          try_step
            (upsert plugin_guid cfg
               (new_version_entry cfg tag_name
                  (env_get environ ''RELEASE_BODY'' ''See release notes.'')
                  (environ ''GITHUB_REPOSITORY'') artifact_name (py_strip checksum_text) now)
               manifest_data w4)
            (\<lambda>manifest_data' w5.
               and_then (write_manifest lib (manifest_file environ) manifest_data' w5)
                 (emit_output lib environ (version_str cfg tag_name))))"
  using assms read_text_exists [OF assms(6)]
  by (simp add: main_def Let_def as_dict_def checksum_exists_def)

lemma manifest_file_cases:
  "manifest_file environ = ''manifest-repo/manifest.json''
     \<or> manifest_file environ = ''manifest-repo/manifest-prerelease.json''"
  by (simp add: manifest_file_def target_filename_def path_join_def)

lemma dirname_manifest_file [simp]: "dirname (manifest_file environ) = ''manifest-repo''"
  using manifest_file_cases [of environ] by (auto simp add: dirname_def)

lemma manifest_file_nonempty [simp]: "manifest_file environ \<noteq> []"
  using manifest_file_cases [of environ] by auto

lemma write_manifest_ok:
  assumes "''manifest-repo'' \<in> dirs w" and "manifest_file environ \<notin> dirs w"
    and "json_dump lib m = Inr txt"
  shows "write_manifest lib (manifest_file environ) m w =
     (None, print (w\<lparr>files := (files w)(manifest_file environ \<mapsto> txt),
                     undecodable := undecodable w - {manifest_file environ}\<rparr>)
              (''Successfully wrote to '' @ manifest_file environ))"
  using assms by (simp add: write_manifest_def open_write_def Let_def)

lemma write_manifest_no_directory:
  assumes "''manifest-repo'' \<notin> dirs w"
  shows "\<exists>e. write_manifest lib (manifest_file environ) m w = (Some e, w)"
  using assms manifest_file_cases [of environ]
  by (auto simp add: write_manifest_def open_write_def Let_def raise_def)

lemma and_then_None: "r = (None, w) \<Longrightarrow> and_then r k = k w"
  by (simp add: and_then_def)

lemma main_unset_repository_literal:
  "main lib (environ(''GITHUB_REPOSITORY'' := None)) now w
     = main lib (environ(''GITHUB_REPOSITORY'' \<mapsto> ''None'')) now w"
  by (simp add: main_def Let_def env_get_def new_version_entry_def source_url_def format_opt_def)

text \<open>
  C10. With \<^verbatim>\<open>GITHUB_REPOSITORY\<close> unset the run does not fail for that reason, and the
  \<^verbatim>\<open>sourceUrl\<close> of the new version entry is
  \<^verbatim>\<open>https://github.com/None/releases/download/<tag>/<artifact>\<close>. Such a run is the
  run with the slug \<^verbatim>\<open>None\<close>. When the other inputs are there, the upsert succeeds,
  the directory of the manifest is there and \<^verbatim>\<open>json.dump\<close> succeeds, the run writes
  the manifest and reaches its last step, the output of the version; without
  \<^verbatim>\<open>GITHUB_OUTPUT\<close> it ends with no error.
\<close>

theorem main_unset_repository:
  assumes "environ ''GITHUB_REPOSITORY'' = None"
    and "environ ''PLUGIN_GUID'' = Some plugin_guid" and "plugin_guid \<noteq> []"
    and "read_text w build_file = Inr yaml_text"
    and "yaml_safe_load lib yaml_text = Inr (JDict cfg)"
    and "environ ''GITHUB_REF_NAME'' = Some tag_name" and "tag_name \<noteq> []"
    and "environ ''ARTIFACT_NAME'' = Some artifact_name" and "artifact_name \<noteq> []"
    and "read_text w checksum_file = Inr checksum_text"
    and "fst (load_manifest lib (manifest_file environ) w) = Inr manifest_data"
    and "fst (upsert plugin_guid cfg
                (new_version_entry cfg tag_name
                   (env_get environ ''RELEASE_BODY'' ''See release notes.'') None
                   artifact_name (py_strip checksum_text) now)
                manifest_data w) = Inr manifest_data'"
    and "''manifest-repo'' \<in> dirs w" and "manifest_file environ \<notin> dirs w"
    and "json_dump lib manifest_data' = Inr txt"
  shows "(\<exists>w6. main lib environ now w = emit_output lib environ (version_str cfg tag_name) w6
            \<and> files w6 (manifest_file environ) = Some txt)
    \<and> (environ ''GITHUB_OUTPUT'' = None \<longrightarrow>
          fst (main lib environ now w) = None
          \<and> files (snd (main lib environ now w)) (manifest_file environ) = Some txt)
    \<and> main lib environ now w = main lib (environ(''GITHUB_REPOSITORY'' \<mapsto> ''None'')) now w
    \<and> json_get (new_version_entry cfg tag_name
                   (env_get environ ''RELEASE_BODY'' ''See release notes.'') None
                   artifact_name (py_strip checksum_text) now) ''sourceUrl''
        = Some (JStr (''https://github.com/None/releases/download/'' @ tag_name @ ''/''
                        @ artifact_name))"
proof -
  let ?w3 = "print (print (print w (''Release type detected: ''
                    @ (if is_prerelease environ then ''Prerelease'' else ''Stable'')))
                  (''Updating file: '' @ target_filename environ))
            (''Reading build config from: '' @ build_file)"
  let ?entry = "new_version_entry cfg tag_name
                   (env_get environ ''RELEASE_BODY'' ''See release notes.'') None
                   artifact_name (py_strip checksum_text) now"
  let ?mf = "manifest_file environ"
  let ?l = "load_manifest lib ?mf ?w3"
  let ?u = "upsert plugin_guid cfg ?entry manifest_data (snd ?l)"
  let ?w5 = "snd ?u"
  let ?w6 = "print (?w5\<lparr>files := (files ?w5)(?mf \<mapsto> txt),
                     undecodable := undecodable ?w5 - {?mf}\<rparr>)
              (''Successfully wrote to '' @ ?mf)"
  have l: "fst ?l = Inr manifest_data"
    using assms(11) by (simp add: load_manifest_fst)
  have u: "fst ?u = Inr manifest_data'"
    using assms(12) upsert_fst_world [of plugin_guid cfg ?entry manifest_data "snd ?l" w] by simp
  have d: "''manifest-repo'' \<in> dirs ?w5" "?mf \<notin> dirs ?w5"
    using assms(13,14) by (simp_all add: upsert_world load_manifest_world)
  have wr: "write_manifest lib ?mf manifest_data' ?w5 = (None, ?w6)"
    by (rule write_manifest_ok [OF d assms(15)])
  have t: "nonempty_value (environ ''PLUGIN_GUID'') = Some plugin_guid"
    "nonempty_value (environ ''GITHUB_REF_NAME'') = Some tag_name"
    "nonempty_value (environ ''ARTIFACT_NAME'') = Some artifact_name"
    using assms(2,3,6-9) by simp_all
  note r = main_run [OF t(1) assms(4,5) t(2,3) assms(10), of now, unfolded assms(1)]
  have m: "main lib environ now w = emit_output lib environ (version_str cfg tag_name) ?w6"
    unfolding r
    by (simp only: try_step_Inr [OF l] try_step_Inr [OF u] and_then_None [OF wr])
  have f: "files ?w6 ?mf = Some txt" by simp
  have a: "\<exists>w6. main lib environ now w = emit_output lib environ (version_str cfg tag_name) w6
            \<and> files w6 ?mf = Some txt"
    using m f by blast
  have b: "environ ''GITHUB_OUTPUT'' = None \<longrightarrow>
          fst (main lib environ now w) = None
          \<and> files (snd (main lib environ now w)) ?mf = Some txt"
    unfolding m by (simp add: emit_output_def Let_def)
  have c: "main lib environ now w = main lib (environ(''GITHUB_REPOSITORY'' \<mapsto> ''None'')) now w"
    using main_unset_repository_literal [of lib environ now w] assms(1)
    by (simp add: fun_upd_idem)
  have e: "json_get ?entry ''sourceUrl''
        = Some (JStr (''https://github.com/None/releases/download/'' @ tag_name @ ''/''
                        @ artifact_name))"
    by (simp add: json_get_def new_version_entry_def source_url_def format_opt_def)
  from a b c e show ?thesis by blast
qed

theorem main_unset_repository_witness:
  "env0 ''GITHUB_REPOSITORY'' = None
   \<and> ''manifest-repo'' \<in> dirs w0
   \<and> fst (main lib0 env0 ''2024-05-01T12:00:00Z'' w0) = None
   \<and> files (snd (main lib0 env0 ''2024-05-01T12:00:00Z'' w0)) ''manifest-repo/manifest.json''
       = Some (dumps
           (JList [JDict [(''category'', JStr ''Tools''), (''guid'', JStr ''G1''),
                          (''name'', JStr ''Foo''), (''description'', JStr []),
                          (''owner'', JStr ''Unknown Owner''), (''overview'', JStr []),
                          (''versions'',
                           JList [JDict [(''version'', JStr ''1.0.0''),
                             (''changelog'', JStr ''See release notes.''),
                             (''timestamp'', JStr ''2024-05-01T12:00:00Z''),
                             (''sourceUrl'',
                              JStr ''https://github.com/None/releases/download/v1.0.0/foo.zip''),
                             (''checksum'', JStr ''abc123''),
                             (''targetAbi'', JStr ''unknown'')]])]]))
   \<and> main lib0 env0 ''2024-05-01T12:00:00Z'' w0
       = main lib0 (env0(''GITHUB_REPOSITORY'' \<mapsto> ''None'')) ''2024-05-01T12:00:00Z'' w0"
proof -
  let ?now = "''2024-05-01T12:00:00Z''"
  let ?entry = "new_version_entry cfg0 ''v1.0.0''
                   (env_get env0 ''RELEASE_BODY'' ''See release notes.'') None
                   ''foo.zip'' (py_strip ''abc123 '') ?now"
  let ?m = "JList [JDict [(''category'', JStr ''Tools''), (''guid'', JStr ''G1''),
                          (''name'', JStr ''Foo''), (''description'', JStr []),
                          (''owner'', JStr ''Unknown Owner''), (''overview'', JStr []),
                          (''versions'', JList [?entry])]]"
  have a1: "env0 ''GITHUB_REPOSITORY'' = None" by (simp add: env0_def)
  have a2: "env0 ''PLUGIN_GUID'' = Some ''G1''" and a3: "''G1'' \<noteq> []"
    by (simp_all add: env0_def)
  have a4: "read_text w0 build_file = Inr ''{name: Foo, category: Tools}''"
    by (simp add: w0_def build_file_def path_join_def read_text_def node_at_def)
  have a5: "yaml_safe_load lib0 ''{name: Foo, category: Tools}'' = Inr (JDict cfg0)"
    by (simp add: lib0_def)
  have a6: "env0 ''GITHUB_REF_NAME'' = Some ''v1.0.0''" and a7: "''v1.0.0'' \<noteq> []"
    by (simp_all add: env0_def)
  have a8: "env0 ''ARTIFACT_NAME'' = Some ''foo.zip''" and a9: "''foo.zip'' \<noteq> []"
    by (simp_all add: env0_def)
  have a10: "read_text w0 checksum_file = Inr ''abc123 ''"
    by (simp add: w0_def checksum_file_def read_text_def node_at_def)
  have mf: "manifest_file env0 = ''manifest-repo/manifest.json''"
    by (simp add: manifest_file_def target_filename_def is_prerelease_def env_get_def
        py_lower_true env0_def path_join_def)
  have a11: "fst (load_manifest lib0 (manifest_file env0) w0) = Inr (JList [])"
    by (simp add: mf load_manifest_fst node_at_def w0_def)
  have a12: "fst (upsert ''G1'' cfg0 ?entry (JList []) w0) = Inr ?m"
    by (simp add: upsert_list new_plugin_entry_obj_def dict_get_def cfg0_def)
  have a13: "''manifest-repo'' \<in> dirs w0" by (simp add: w0_def)
  have a14: "manifest_file env0 \<notin> dirs w0" by (simp add: mf w0_def)
  have a15: "json_dump lib0 ?m = Inr (dumps ?m)" by (simp add: lib0_def)
  have o: "env0 ''GITHUB_OUTPUT'' = None" by (simp add: env0_def)
  have s: "py_strip ''abc123 '' = ''abc123''"
    by (simp add: py_strip_def isspace_def)
  have en: "?entry = JDict [(''version'', JStr ''1.0.0''),
                             (''changelog'', JStr ''See release notes.''),
                             (''timestamp'', JStr ''2024-05-01T12:00:00Z''),
                             (''sourceUrl'',
                              JStr ''https://github.com/None/releases/download/v1.0.0/foo.zip''),
                             (''checksum'', JStr ''abc123''),
                             (''targetAbi'', JStr ''unknown'')]"
    by (simp add: s new_version_entry_def version_str_def dict_get_def cfg0_def py_lstrip_def
        source_url_def format_opt_def env_get_def env0_def)
  from main_unset_repository [OF a1 a2 a3 a4 a5 a6 a7 a8 a9 a10 a11 a12 a13 a14 a15] o
  have "fst (main lib0 env0 ?now w0) = None
     \<and> files (snd (main lib0 env0 ?now w0)) (manifest_file env0) = Some (dumps ?m)
     \<and> main lib0 env0 ?now w0 = main lib0 (env0(''GITHUB_REPOSITORY'' \<mapsto> ''None'')) ?now w0"
    by blast
  then show ?thesis
    unfolding mf en using a1 a13 by (elim conjE, intro conjI) assumption+
qed

text \<open>
  The write can fail for other reasons: without the directory \<^verbatim>\<open>manifest-repo\<close> the
  \<^verbatim>\<open>open\<close> of the manifest file raises.
\<close>

lemma main_without_manifest_directory:
  "fst (main lib0 env0 ''2024-05-01T12:00:00Z'' (w0\<lparr>dirs := {''plugin-repo''}\<rparr>))
     = Some (FileNotFoundError ''manifest-repo/manifest.json'')"
  by (simp add: run_defs load_manifest_def read_manifest_def try_step_def and_then_def
      raise_def upsert_def py_iter_def store_items_def py_append_def write_manifest_def
      open_write_def dirname_def target_filename_def is_prerelease_def py_lower_true
      print_def require_def attempt_def nonempty_value_def)

end
